theory Spec2Isabelle
  imports Complex_Main
begin

section \<open>Python values used by the exporter\<close>

text \<open>
  Strings are lists of code points below 256 (\<^typ>\<open>char\<close>). A finite Python float is
  given by its value, a real number that is a binary64 number; every operation that makes
  a float rounds to binary64 (\<open>round64\<close> below). The sign of a zero is not kept.
\<close>

datatype pyfloat = Finite real | PosInf | NegInf | NaN

text \<open>What \<^verbatim>\<open>response.json()\<close> returns: None, bool, int, float, str, list, dict. The
  pairs of a dict are in the order of the text; of two pairs with one key the later one
  counts.\<close>

datatype json =
    JNull
  | JBool bool
  | JInt int
  | JFloat pyfloat
  | JStr string
  | JList "json list"
  | JDict "(string \<times> json) list"

datatype py_error = ValueError | TypeError | AttributeError | OverflowError

text \<open>Truth value of a Python object, as tested by \<^verbatim>\<open>if x\<close> and \<^verbatim>\<open>not x\<close>.\<close>

fun truthy :: "json \<Rightarrow> bool" where
  "truthy JNull = False"
| "truthy (JBool b) = b"
| "truthy (JInt n) = (n \<noteq> 0)"
| "truthy (JFloat f) = (f \<noteq> Finite 0)"
| "truthy (JStr s) = (s \<noteq> [])"
| "truthy (JList xs) = (xs \<noteq> [])"
| "truthy (JDict kvs) = (kvs \<noteq> [])"

text \<open>\<^verbatim>\<open>d.get(key)\<close> and \<^verbatim>\<open>d.get(key, default)\<close> on a dict.\<close>

definition dict_get :: "(string \<times> json) list \<Rightarrow> string \<Rightarrow> json" where
  "dict_get d k = (case map_of (rev d) k of None \<Rightarrow> JNull | Some v \<Rightarrow> v)"

definition dict_get_default :: "(string \<times> json) list \<Rightarrow> string \<Rightarrow> json \<Rightarrow> json" where
  "dict_get_default d k dflt = (case map_of (rev d) k of None \<Rightarrow> dflt | Some v \<Rightarrow> v)"

subsection \<open>Characters and strings\<close>

text \<open>The code points below 256 for which \<^verbatim>\<open>str.isspace()\<close> holds: what
  \<^verbatim>\<open>str.strip()\<close> removes and what \<^verbatim>\<open>\s\<close> matches in a str pattern.\<close>

definition is_space :: "char \<Rightarrow> bool" where
  "is_space c = (c \<in> set [CHR 0x09, CHR 0x0A, CHR 0x0B, CHR 0x0C, CHR 0x0D,
                          CHR 0x1C, CHR 0x1D, CHR 0x1E, CHR 0x1F, CHR 0x20,
                          CHR 0x85, CHR 0xA0])"

text \<open>The code points below 256 that \<^verbatim>\<open>int()\<close> and \<^verbatim>\<open>float()\<close> skip around a
  number: the ASCII whitespace of C and the two spaces above 127 (0x1C to 0x1F are not
  skipped).\<close>

definition is_num_space :: "char \<Rightarrow> bool" where
  "is_num_space c = (c \<in> set [CHR 0x09, CHR 0x0A, CHR 0x0B, CHR 0x0C, CHR 0x0D, CHR 0x20,
                              CHR 0x85, CHR 0xA0])"

definition is_digit :: "char \<Rightarrow> bool" where
  "is_digit c = (c \<in> set ''0123456789'')"

definition digit_val :: "char \<Rightarrow> nat" where
  "digit_val c = (case map_of (zip ''0123456789'' [0, 1, 2, 3, 4, 5, 6, 7, 8, 9]) c of
                    None \<Rightarrow> 0 | Some d \<Rightarrow> d)"

definition strip :: "string \<Rightarrow> string" where
  "strip s = rev (dropWhile is_space (rev (dropWhile is_space s)))"

definition num_strip :: "string \<Rightarrow> string" where
  "num_strip s = rev (dropWhile is_num_space (rev (dropWhile is_num_space s)))"

definition upper_char :: "char \<Rightarrow> char" where
  "upper_char c = (case map_of (zip ''abcdefghijklmnopqrstuvwxyz''
                                    ''ABCDEFGHIJKLMNOPQRSTUVWXYZ'') c of
                     None \<Rightarrow> c | Some u \<Rightarrow> u)"

text \<open>\<^verbatim>\<open>str.upper()\<close> on ASCII text (it is applied to a matched unit only).\<close>

definition upper :: "string \<Rightarrow> string" where
  "upper s = map upper_char s"

definition is_prefix :: "string \<Rightarrow> string \<Rightarrow> bool" where
  "is_prefix p s = (take (length p) s = p)"

text \<open>\<^verbatim>\<open>sub in s\<close> for strings.\<close>

fun contains :: "string \<Rightarrow> string \<Rightarrow> bool" where
  "contains sub [] = (sub = [])"
| "contains sub (c # cs) = (is_prefix sub (c # cs) \<or> contains sub cs)"

subsection \<open>Rounding to binary64\<close>

text \<open>The number of binary digits of a natural number.\<close>

fun bit_length :: "nat \<Rightarrow> nat" where
  "bit_length n = (if n = 0 then 0 else Suc (bit_length (n div 2)))"

declare bit_length.simps [simp del]

definition pow2 :: "int \<Rightarrow> real" where
  "pow2 e = (if 0 \<le> e then 2 ^ nat e else 1 / 2 ^ nat (- e))"

text \<open>For a positive x, the exponent e with \<open>2^e \<le> x < 2^(e+1)\<close>.\<close>

definition float_exponent :: "real \<Rightarrow> int" where
  "float_exponent x =
     (if 1 \<le> x then int (bit_length (nat \<lfloor>x\<rfloor>)) - 1
      else (let j = int (bit_length (nat \<lfloor>1 / x\<rfloor>)) - 1
            in if x * pow2 j = 1 then - j else - j - 1))"

text \<open>The nearest integer, a tie going to the even one.\<close>

definition round_half_even :: "real \<Rightarrow> int" where
  "round_half_even q =
     (let m = \<lfloor>q\<rfloor>; f = q - of_int m
      in if 1 / 2 < f \<or> (f = 1 / 2 \<and> odd m) then m + 1 else m)"

text \<open>
  The binary64 number nearest to a positive real: 53 significant bits, the least exponent
  -1022 (below it the numbers are subnormal, multiples of \<open>2^-1074\<close>), and infinity from
  \<open>2^1024\<close> on.
\<close>

definition round64_pos :: "real \<Rightarrow> pyfloat" where
  "round64_pos x =
     (let e = max (float_exponent x) (- 1022);
          y = of_int (round_half_even (x * pow2 (52 - e))) * pow2 (e - 52)
      in if pow2 1024 \<le> y then PosInf else Finite y)"

definition float_neg :: "pyfloat \<Rightarrow> pyfloat" where
  "float_neg f = (case f of Finite r \<Rightarrow> Finite (- r) | PosInf \<Rightarrow> NegInf
                  | NegInf \<Rightarrow> PosInf | NaN \<Rightarrow> NaN)"

definition round64 :: "real \<Rightarrow> pyfloat" where
  "round64 x = (if x = 0 then Finite 0
                else if 0 < x then round64_pos x
                else float_neg (round64_pos (- x)))"

text \<open>The product of two floats.\<close>

definition float_mul :: "pyfloat \<Rightarrow> pyfloat \<Rightarrow> pyfloat" where
  "float_mul a b =
     (case (a, b) of
        (NaN, _) \<Rightarrow> NaN
      | (_, NaN) \<Rightarrow> NaN
      | (Finite x, Finite y) \<Rightarrow> round64 (x * y)
      | (Finite x, PosInf) \<Rightarrow> if x = 0 then NaN else if 0 < x then PosInf else NegInf
      | (Finite x, NegInf) \<Rightarrow> if x = 0 then NaN else if 0 < x then NegInf else PosInf
      | (PosInf, Finite y) \<Rightarrow> if y = 0 then NaN else if 0 < y then PosInf else NegInf
      | (NegInf, Finite y) \<Rightarrow> if y = 0 then NaN else if 0 < y then NegInf else PosInf
      | (PosInf, PosInf) \<Rightarrow> PosInf
      | (PosInf, NegInf) \<Rightarrow> NegInf
      | (NegInf, PosInf) \<Rightarrow> NegInf
      | (NegInf, NegInf) \<Rightarrow> PosInf)"

text \<open>The conversion of an int to a float: \<^verbatim>\<open>float(n)\<close>, and what \<^verbatim>\<open>x * n\<close> does
  to n first. An int that rounds to infinity raises OverflowError.\<close>

definition float_of_int :: "int \<Rightarrow> py_error + pyfloat" where
  "float_of_int n = (case round64 (of_int n) of
                       Finite r \<Rightarrow> Inr (Finite r)
                     | _ \<Rightarrow> Inl OverflowError)"

subsection \<open>The builtins \<^verbatim>\<open>float()\<close> and \<^verbatim>\<open>int()\<close>\<close>

text \<open>\<^verbatim>\<open>digitpart ::= digit (["_"] digit)*\<close>, read from the front of a text that starts
  with a digit: the digits (underscores dropped) and the rest.\<close>

fun digits_tail :: "string \<Rightarrow> string \<times> string" where
  "digits_tail [] = ([], [])"
| "digits_tail [c] = (if is_digit c then ([c], []) else ([], [c]))"
| "digits_tail (c # d # cs) =
     (if is_digit c then (case digits_tail (d # cs) of (ds, r) \<Rightarrow> (c # ds, r))
      else if c = CHR ''_'' \<and> is_digit d then digits_tail (d # cs)
      else ([], c # d # cs))"

text \<open>None when the text does not start with a digit.\<close>

definition digitpart :: "string \<Rightarrow> (string \<times> string) option" where
  "digitpart s = (case s of [] \<Rightarrow> None
                  | c # cs \<Rightarrow> if is_digit c then Some (digits_tail s) else None)"

text \<open>Value of a digit string, most significant digit first.\<close>

definition nat_of_digits :: "string \<Rightarrow> nat" where
  "nat_of_digits ds = foldl (\<lambda>acc c. 10 * acc + digit_val c) 0 ds"

text \<open>An optional sign at the front: the sign (True for minus) and the rest.\<close>

definition opt_sign :: "string \<Rightarrow> bool \<times> string" where
  "opt_sign s = (case s of [] \<Rightarrow> (False, [])
                 | c # cs \<Rightarrow> if c = CHR ''-'' then (True, cs)
                            else if c = CHR ''+'' then (False, cs) else (False, s))"

text \<open>\<^verbatim>\<open>sys.get_int_max_str_digits()\<close>, by default.\<close>

definition int_max_str_digits :: nat where
  "int_max_str_digits = 4300"

text \<open>\<^verbatim>\<open>int(s)\<close> for a str, base 10: whitespace skipped, an optional sign, one
  digitpart of at most 4300 digits and nothing else. None is ValueError.\<close>

definition int_of_str :: "string \<Rightarrow> int option" where
  "int_of_str s =
     (case opt_sign (num_strip s) of (neg, t) \<Rightarrow>
        (case digitpart t of
           None \<Rightarrow> None
         | Some (ds, r) \<Rightarrow>
             if r = [] \<and> length ds \<le> int_max_str_digits
             then Some (if neg then - int (nat_of_digits ds) else int (nat_of_digits ds))
             else None))"

text \<open>\<^verbatim>\<open>number ::= [digitpart] "." digitpart | digitpart ["."]\<close>: integer digits,
  fraction digits and the rest.\<close>

definition number_part :: "string \<Rightarrow> (string \<times> string \<times> string) option" where
  "number_part s =
     (case digitpart s of
        Some (ip, r) \<Rightarrow>
          (case r of
             [] \<Rightarrow> Some (ip, [], [])
           | c # cs \<Rightarrow>
               if c = CHR ''.'' then
                 (case digitpart cs of
                    Some (fp, r') \<Rightarrow> Some (ip, fp, r')
                  | None \<Rightarrow> Some (ip, [], cs))
               else Some (ip, [], r))
      | None \<Rightarrow>
          (case s of
             [] \<Rightarrow> None
           | c # cs \<Rightarrow>
               if c = CHR ''.'' then
                 (case digitpart cs of
                    Some (fp, r') \<Rightarrow> Some ([], fp, r')
                  | None \<Rightarrow> None)
               else None))"

text \<open>\<^verbatim>\<open>exponent ::= ("e" | "E") [sign] digitpart\<close>, optional, up to the end of the
  text. None when something else follows the number.\<close>

definition exponent_part :: "string \<Rightarrow> int option" where
  "exponent_part r =
     (case r of
        [] \<Rightarrow> Some 0
      | c # cs \<Rightarrow>
          if c = CHR ''e'' \<or> c = CHR ''E'' then
            (case opt_sign cs of (neg, t) \<Rightarrow>
               (case digitpart t of
                  None \<Rightarrow> None
                | Some (ds, r') \<Rightarrow>
                    if r' = [] then
                      Some (if neg then - int (nat_of_digits ds) else int (nat_of_digits ds))
                    else None))
          else None)"

definition scale10 :: "real \<Rightarrow> int \<Rightarrow> real" where
  "scale10 m e = (if 0 \<le> e then m * 10 ^ nat e else m / 10 ^ nat (- e))"

text \<open>The number that the digits before and after the point write.\<close>

definition decimal_value :: "string \<Rightarrow> string \<Rightarrow> real" where
  "decimal_value ip fp = real (nat_of_digits ip) + real (nat_of_digits fp) / 10 ^ length fp"

text \<open>\<^verbatim>\<open>float(s)\<close> for a str: whitespace skipped, an optional sign, then
  \<^verbatim>\<open>inf\<close>, \<^verbatim>\<open>infinity\<close>, \<^verbatim>\<open>nan\<close> (any case) or a number with an optional
  exponent, rounded to binary64. None is ValueError.\<close>

definition float_of_str :: "string \<Rightarrow> pyfloat option" where
  "float_of_str s =
     (case opt_sign (num_strip s) of (neg, t) \<Rightarrow>
        if upper t = ''INF'' \<or> upper t = ''INFINITY'' then Some (if neg then NegInf else PosInf)
        else if upper t = ''NAN'' then Some NaN
        else
          (case number_part t of
             None \<Rightarrow> None
           | Some (ip, fp, r) \<Rightarrow>
               (case exponent_part r of
                  None \<Rightarrow> None
                | Some e \<Rightarrow>
                    Some (if neg then float_neg (round64 (scale10 (decimal_value ip fp) e))
                          else round64 (scale10 (decimal_value ip fp) e)))))"

text \<open>\<^verbatim>\<open>float(x)\<close> on a value decoded from JSON.\<close>

fun py_float :: "json \<Rightarrow> py_error + pyfloat" where
  "py_float JNull = Inl TypeError"
| "py_float (JBool b) = Inr (Finite (if b then 1 else 0))"
| "py_float (JInt n) = float_of_int n"
| "py_float (JFloat f) = Inr f"
| "py_float (JStr s) = (case float_of_str s of None \<Rightarrow> Inl ValueError | Some f \<Rightarrow> Inr f)"
| "py_float (JList xs) = Inl TypeError"
| "py_float (JDict kvs) = Inl TypeError"

text \<open>\<^verbatim>\<open>int(x)\<close> on a value decoded from JSON; a float is truncated towards zero.\<close>

definition trunc :: "real \<Rightarrow> int" where
  "trunc r = (if 0 \<le> r then \<lfloor>r\<rfloor> else \<lceil>r\<rceil>)"

fun py_int :: "json \<Rightarrow> py_error + int" where
  "py_int JNull = Inl TypeError"
| "py_int (JBool b) = Inr (if b then 1 else 0)"
| "py_int (JInt n) = Inr n"
| "py_int (JFloat f) =
     (case f of Finite r \<Rightarrow> Inr (trunc r)
      | PosInf \<Rightarrow> Inl OverflowError | NegInf \<Rightarrow> Inl OverflowError
      | NaN \<Rightarrow> Inl ValueError)"
| "py_int (JStr s) = (case int_of_str s of None \<Rightarrow> Inl ValueError | Some n \<Rightarrow> Inr n)"
| "py_int (JList xs) = Inl TypeError"
| "py_int (JDict kvs) = Inl TypeError"

section \<open>RackNerdCollector.parse\_size\<close>

text \<open>\<^verbatim>\<open>re.match(r'([\d.]+)\s*(GB|MB|TB|KB)?', s, re.IGNORECASE)\<close>: group 1 and
  group 2 (None when the unit is absent); None when there is no match. The match is
  anchored at the start only.\<close>

definition is_num_char :: "char \<Rightarrow> bool" where
  "is_num_char c = (is_digit c \<or> c = CHR ''.'')"

definition size_match :: "string \<Rightarrow> (string \<times> string option) option" where
  "size_match s =
     (let g1 = takeWhile is_num_char s in
      if g1 = [] then None
      else
        (let u = take 2 (dropWhile is_space (dropWhile is_num_char s)) in
         Some (g1, if upper u \<in> set [''GB'', ''MB'', ''TB'', ''KB''] then Some u else None)))"

text \<open>\<^verbatim>\<open>multipliers.get(unit, 1024 ** 3)\<close>.\<close>

definition multipliers :: "(string \<times> int) list" where
  "multipliers = [(''KB'', 1024), (''MB'', 1024 ^ 2), (''GB'', 1024 ^ 3), (''TB'', 1024 ^ 4)]"

definition multipliers_get :: "string \<Rightarrow> int" where
  "multipliers_get unit = (case map_of multipliers unit of None \<Rightarrow> 1024 ^ 3 | Some m \<Rightarrow> m)"

text \<open>\<^verbatim>\<open>value * m\<close> for a float and an int: the int is converted, then the floats are
  multiplied.\<close>

definition float_times :: "pyfloat \<Rightarrow> int \<Rightarrow> py_error + pyfloat" where
  "float_times f m = (case float_of_int m of Inl e \<Rightarrow> Inl e | Inr g \<Rightarrow> Inr (float_mul f g))"

text \<open>The argument is whatever the stats dict holds; a value that is not a str and is
  truthy has no \<^verbatim>\<open>strip\<close> (AttributeError).\<close>

definition parse_size :: "json \<Rightarrow> py_error + pyfloat" where
  "parse_size size_str =
     (if \<not> truthy size_str \<or> size_str = JStr ''null'' then Inr (Finite 0)
      else
        (case size_str of
           JStr s \<Rightarrow>
             (case size_match (strip s) of
                None \<Rightarrow> Inr (Finite 0)
              | Some (g1, g2) \<Rightarrow>
                  (case float_of_str g1 of
                     None \<Rightarrow> Inl ValueError
                   | Some v \<Rightarrow>
                       (let unit = upper (case g2 of None \<Rightarrow> ''GB'' | Some u \<Rightarrow> u)
                        in float_times v (multipliers_get unit))))
         | _ \<Rightarrow> Inl AttributeError))"

section \<open>The panel as seen by the client\<close>

text \<open>
  The parts of a page that the code reads through BeautifulSoup. A cell is one
  \<^verbatim>\<open>td\<close> of a row: \<^verbatim>\<open>str(cell)\<close>, \<^verbatim>\<open>cell.text\<close> and \<^verbatim>\<open>cell.find('a')\<close>; a row
  is \<^verbatim>\<open>row.find_all('td')\<close>.
\<close>

record anchor =
  href :: "string option"
  a_text :: string

record cell =
  cell_str :: string
  cell_text :: string
  cell_a :: "anchor option"

type_synonym row = "cell list"

text \<open>
  A response of the panel: the status code, \<^verbatim>\<open>response.text\<close>, what
  \<^verbatim>\<open>response.json()\<close> returns (None when it raises ValueError) and, for a page,
  \<^verbatim>\<open>soup.find('table', {'id': 'vmlist'})\<close> with its \<^verbatim>\<open>find('tbody')\<close> and the rows
  of that (None where find returns None).
\<close>

record response =
  status_code :: nat
  body_text :: string
  json_body :: "json option"
  vmlist :: "row list option option"

datatype request = Get string | Post string "(string \<times> string) list"

text \<open>
  The panel answers the n-th request of the session (counted from 0); None is a call of
  \<^verbatim>\<open>requests\<close> that raises (connection error, timeout).
\<close>

type_synonym server = "nat \<Rightarrow> request \<Rightarrow> response option"

text \<open>The records written by the logger at the levels info, warning and error.\<close>

datatype log_event =
    InfoSessionExpired
  | InfoLoggedIn
  | InfoLoginVerified
  | ErrVerificationFailed
  | ErrTwoFactor
  | ErrBlacklisted
  | ErrInvalidCredentials
  | ErrUnknownStatus json
  | ErrSuccessFalse
  | ErrNotJson
  | ErrLoginError
  | WarnNotLoggedIn
  | WarnNoTable
  | InfoFoundVMs nat
  | ErrGettingVMs
  | WarnStatsFailed string
  | ErrVMStats string
  | WarnNoVMs
  | WarnStatsUnavailable string

section \<open>RackNerdClient\<close>

record client =
  base_url :: string
  username :: string
  password :: string
  logged_in :: bool
  sent :: "request list"
  log :: "log_event list"

definition add_log :: "log_event \<Rightarrow> client \<Rightarrow> client" where
  "add_log e c = c\<lparr>log := log c @ [e]\<rparr>"

text \<open>One call of \<^verbatim>\<open>session.get\<close> or \<^verbatim>\<open>session.post\<close>.\<close>

definition send :: "server \<Rightarrow> request \<Rightarrow> client \<Rightarrow> response option \<times> client" where
  "send srv rq c = (srv (length (sent c)) rq, c\<lparr>sent := sent c @ [rq]\<rparr>)"

text \<open>\<^verbatim>\<open>response.raise_for_status()\<close> raises on a 4xx or 5xx status.\<close>

definition raises_for_status :: "response \<Rightarrow> bool" where
  "raises_for_status r = (400 \<le> status_code r \<and> status_code r < 600)"

definition home_request :: "client \<Rightarrow> request" where
  "home_request c = Get (base_url c @ ''/home.php'')"

definition login_request :: "client \<Rightarrow> request" where
  "login_request c =
     Post (base_url c @ ''/login.php'')
       [(''act'', ''login''), (''Submit'', ''1''),
        (''username'', username c), (''password'', password c)]"

definition stats_request :: "client \<Rightarrow> string \<Rightarrow> request" where
  "stats_request c vm_id =
     Post (base_url c @ ''/_vm_remote.php'') [(''act'', ''getstatsdiskusage''), (''vi'', vm_id)]"

definition is_logged_in :: "server \<Rightarrow> client \<Rightarrow> bool \<times> client" where
  "is_logged_in srv c =
     (case send srv (home_request c) c of
        (None, c1) \<Rightarrow> (False, c1)
      | (Some r, c1) \<Rightarrow>
          if status_code r = 200 then
            (if contains ''logout.php'' (body_text r) \<and> contains ''vmlist'' (body_text r)
             then (True, c1) else (False, c1))
          else (False, c1))"

text \<open>
  login. A JSON body that is not an object has no \<^verbatim>\<open>get\<close>: the AttributeError
  reaches the outer handler, as an exception of the verification fetch does.
\<close>

definition login :: "server \<Rightarrow> client \<Rightarrow> bool \<times> client" where
  "login srv c =
     (case send srv (login_request c) c of
        (None, c1) \<Rightarrow> (False, add_log ErrLoginError c1)
      | (Some r, c1) \<Rightarrow>
          if raises_for_status r then (False, add_log ErrLoginError c1)
          else
            (case json_body r of
               None \<Rightarrow> (False, add_log ErrNotJson c1)
             | Some (JDict d) \<Rightarrow>
                 if truthy (dict_get d ''success'') then
                   (let status = dict_get d ''status'' in
                    if status = JStr ''1'' then
                      (let c2 = add_log InfoLoggedIn (c1\<lparr>logged_in := True\<rparr>) in
                       case send srv (home_request c2) c2 of
                         (None, c3) \<Rightarrow> (False, add_log ErrLoginError c3)
                       | (Some v, c3) \<Rightarrow>
                           if contains ''logout.php'' (body_text v)
                           then (True, add_log InfoLoginVerified c3)
                           else (False, add_log ErrVerificationFailed c3))
                    else if status = JStr ''4'' then (False, add_log ErrTwoFactor c1)
                    else if status = JStr ''2'' then (False, add_log ErrBlacklisted c1)
                    else if status = JStr ''3'' then (False, add_log ErrInvalidCredentials c1)
                    else (False, add_log (ErrUnknownStatus status) c1))
                 else (False, add_log ErrSuccessFalse c1)
             | Some _ \<Rightarrow> (False, add_log ErrLoginError c1)))"

definition ensure_logged_in :: "server \<Rightarrow> client \<Rightarrow> bool \<times> client" where
  "ensure_logged_in srv c =
     (case (if logged_in c then is_logged_in srv c else (False, c)) of
        (True, c1) \<Rightarrow> (True, c1)
      | (False, c1) \<Rightarrow> login srv (add_log InfoSessionExpired (c1\<lparr>logged_in := False\<rparr>)))"

subsection \<open>get\_vms\<close>

record vm =
  vm_id :: string
  hostname :: string
  vm_type :: string
  ip_address :: string
  os :: string
  memory :: string
  disk :: string

text \<open>\<^verbatim>\<open>re.search(r'\?_v=([^&]+)', href)\<close>: group 1 of the leftmost match.\<close>

fun vm_id_search :: "string \<Rightarrow> string option" where
  "vm_id_search [] = None"
| "vm_id_search (c # cs) =
     (let v = takeWhile (\<lambda>x. x \<noteq> CHR ''&'') (drop 4 (c # cs)) in
      if is_prefix ''?_v='' (c # cs) \<and> v \<noteq> [] then Some v else vm_id_search cs)"

text \<open>The body of the loop over the rows: None where the code says \<^verbatim>\<open>continue\<close>.\<close>

definition parse_row :: "row \<Rightarrow> vm option" where
  "parse_row cells =
     (if length cells < 6 then None
      else
        (case cell_a (cells ! 1) of
           None \<Rightarrow> None
         | Some link \<Rightarrow>
             (case vm_id_search (case href link of None \<Rightarrow> [] | Some h \<Rightarrow> h) of
                None \<Rightarrow> None
              | Some v \<Rightarrow>
                  Some \<lparr>vm_id = v,
                        hostname = strip (a_text link),
                        vm_type = (if contains ''kvm.png'' (cell_str (cells ! 0))
                                   then ''kvm'' else ''openvz''),
                        ip_address = strip (cell_text (cells ! 2)),
                        os = strip (cell_text (cells ! 3)),
                        memory = strip (cell_text (cells ! 4)),
                        disk = strip (cell_text (cells ! 5))\<rparr>)))"

fun rows_loop :: "row list \<Rightarrow> vm list \<Rightarrow> vm list" where
  "rows_loop [] vms = vms"
| "rows_loop (r # rs) vms =
     (case parse_row r of None \<Rightarrow> rows_loop rs vms | Some v \<Rightarrow> rows_loop rs (vms @ [v]))"

text \<open>
  get\_vms calls itself after a successful re-login. The first argument bounds the depth of
  these calls; None says the bound was reached before the call returned.
\<close>

fun get_vms :: "nat \<Rightarrow> server \<Rightarrow> client \<Rightarrow> (vm list \<times> client) option" where
  "get_vms 0 srv c = None"
| "get_vms (Suc k) srv c =
     (case ensure_logged_in srv c of
        (False, c1) \<Rightarrow> Some ([], c1)
      | (True, c1) \<Rightarrow>
          (case send srv (home_request c1) c1 of
             (None, c2) \<Rightarrow> Some ([], add_log ErrGettingVMs c2)
           | (Some r, c2) \<Rightarrow>
               if raises_for_status r then Some ([], add_log ErrGettingVMs c2)
               else if \<not> contains ''logout.php'' (body_text r) then
                 (case ensure_logged_in srv ((add_log WarnNotLoggedIn c2)\<lparr>logged_in := False\<rparr>) of
                    (True, c3) \<Rightarrow> get_vms k srv c3
                  | (False, c3) \<Rightarrow> Some ([], c3))
               else
                 (case vmlist r of
                    None \<Rightarrow> Some ([], add_log WarnNoTable c2)
                  | Some None \<Rightarrow> Some ([], c2)
                  | Some (Some rows) \<Rightarrow>
                      (let vms = rows_loop rows [] in
                       Some (vms, add_log (InfoFoundVMs (length vms)) c2)))))"

subsection \<open>get\_vm\_stats\<close>

text \<open>The result is the decoded dict, or None.\<close>

definition get_vm_stats :: "server \<Rightarrow> string \<Rightarrow> client \<Rightarrow> (string \<times> json) list option \<times> client" where
  "get_vm_stats srv vid c =
     (case ensure_logged_in srv c of
        (False, c1) \<Rightarrow> (None, c1)
      | (True, c1) \<Rightarrow>
          (case send srv (stats_request c1 vid) c1 of
             (None, c2) \<Rightarrow> (None, add_log (ErrVMStats vid) c2)
           | (Some r, c2) \<Rightarrow>
               if raises_for_status r then (None, add_log (ErrVMStats vid) c2)
               else
                 (case json_body r of
                    None \<Rightarrow> (None, add_log (ErrVMStats vid) c2)
                  | Some (JDict d) \<Rightarrow>
                      if dict_get d ''success'' = JStr ''1'' then (Some d, c2)
                      else (None, add_log (WarnStatsFailed vid) c2)
                  | Some _ \<Rightarrow> (None, add_log (ErrVMStats vid) c2))))"

section \<open>RackNerdCollector.collect\<close>

text \<open>A sample of a metric family: the label values and the value given to
  \<^verbatim>\<open>add_metric\<close>, an int or a float.\<close>

datatype number = IntVal int | FloatVal pyfloat

type_synonym sample = "string list \<times> number"

record families =
  vm_info :: "sample list"
  vm_state :: "sample list"
  vm_stats_up :: "sample list"
  bandwidth_total :: "sample list"
  bandwidth_used :: "sample list"
  bandwidth_percent :: "sample list"
  disk_total :: "sample list"
  disk_used :: "sample list"
  disk_percent :: "sample list"
  memory_total :: "sample list"
  memory_used :: "sample list"
  memory_percent :: "sample list"
  vswap_total :: "sample list"
  vswap_used :: "sample list"
  vswap_percent :: "sample list"

definition empty_families :: families where
  "empty_families =
     \<lparr>vm_info = [], vm_state = [], vm_stats_up = [],
      bandwidth_total = [], bandwidth_used = [], bandwidth_percent = [],
      disk_total = [], disk_used = [], disk_percent = [],
      memory_total = [], memory_used = [], memory_percent = [],
      vswap_total = [], vswap_used = [], vswap_percent = []\<rparr>"

text \<open>\<^verbatim>\<open>try: state = int(state_value)  except (ValueError, TypeError): state = 0\<close>.\<close>

definition parse_state :: "json \<Rightarrow> py_error + int" where
  "parse_state state_value =
     (case py_int state_value of
        Inr n \<Rightarrow> Inr n
      | Inl e \<Rightarrow> if e = ValueError \<or> e = TypeError then Inr 0 else Inl e)"

text \<open>The three values of one resource, in the order the code computes them:
  \<^verbatim>\<open>parse_size(stats[total])\<close>, \<^verbatim>\<open>parse_size(stats.get(used, '0'))\<close>,
  \<^verbatim>\<open>float(stats.get(percent, '0'))\<close>.\<close>

definition usage_triple ::
  "(string \<times> json) list \<Rightarrow> string \<Rightarrow> string \<Rightarrow> string \<Rightarrow> py_error + pyfloat \<times> pyfloat \<times> pyfloat" where
  "usage_triple stats total_key used_key percent_key =
     (case parse_size (dict_get stats total_key) of
        Inl e \<Rightarrow> Inl e
      | Inr t \<Rightarrow>
          (case parse_size (dict_get_default stats used_key (JStr ''0'')) of
             Inl e \<Rightarrow> Inl e
           | Inr u \<Rightarrow>
               (case py_float (dict_get_default stats percent_key (JStr ''0'')) of
                  Inl e \<Rightarrow> Inl e
                | Inr p \<Rightarrow> Inr (t, u, p))))"

definition add_bandwidth :: "string \<Rightarrow> (string \<times> json) list \<Rightarrow> families \<Rightarrow> py_error + families" where
  "add_bandwidth h stats f =
     (if truthy (dict_get stats ''totalbw'') then
        (case usage_triple stats ''totalbw'' ''usedbw'' ''percentbw'' of
           Inl e \<Rightarrow> Inl e
         | Inr (t, u, p) \<Rightarrow>
             Inr (f\<lparr>bandwidth_total := bandwidth_total f @ [([h], FloatVal t)],
                    bandwidth_used := bandwidth_used f @ [([h], FloatVal u)],
                    bandwidth_percent := bandwidth_percent f @ [([h], FloatVal p)]\<rparr>))
      else Inr f)"

definition add_disk :: "string \<Rightarrow> (string \<times> json) list \<Rightarrow> families \<Rightarrow> py_error + families" where
  "add_disk h stats f =
     (if truthy (dict_get stats ''totalhdd'') then
        (case usage_triple stats ''totalhdd'' ''usedhdd'' ''percenthdd'' of
           Inl e \<Rightarrow> Inl e
         | Inr (t, u, p) \<Rightarrow>
             Inr (f\<lparr>disk_total := disk_total f @ [([h], FloatVal t)],
                    disk_used := disk_used f @ [([h], FloatVal u)],
                    disk_percent := disk_percent f @ [([h], FloatVal p)]\<rparr>))
      else Inr f)"

definition add_memory :: "string \<Rightarrow> (string \<times> json) list \<Rightarrow> families \<Rightarrow> py_error + families" where
  "add_memory h stats f =
     (if truthy (dict_get stats ''totalmem'')
         \<and> dict_get stats ''totalmem'' \<noteq> JStr ''null'' \<and> dict_get stats ''totalmem'' \<noteq> JNull then
        (case usage_triple stats ''totalmem'' ''usedmem'' ''percentmem'' of
           Inl e \<Rightarrow> Inl e
         | Inr (t, u, p) \<Rightarrow>
             Inr (f\<lparr>memory_total := memory_total f @ [([h], FloatVal t)],
                    memory_used := memory_used f @ [([h], FloatVal u)],
                    memory_percent := memory_percent f @ [([h], FloatVal p)]\<rparr>))
      else Inr f)"

definition add_vswap :: "string \<Rightarrow> (string \<times> json) list \<Rightarrow> families \<Rightarrow> py_error + families" where
  "add_vswap h stats f =
     (if truthy (dict_get stats ''totalvswap'')
         \<and> dict_get stats ''totalvswap'' \<noteq> JStr ''null'' \<and> dict_get stats ''totalvswap'' \<noteq> JNull then
        (case usage_triple stats ''totalvswap'' ''usedvswap'' ''percentvswap'' of
           Inl e \<Rightarrow> Inl e
         | Inr (t, u, p) \<Rightarrow>
             Inr (f\<lparr>vswap_total := vswap_total f @ [([h], FloatVal t)],
                    vswap_used := vswap_used f @ [([h], FloatVal u)],
                    vswap_percent := vswap_percent f @ [([h], FloatVal p)]\<rparr>))
      else Inr f)"

text \<open>The branch \<^verbatim>\<open>if stats:\<close> of the loop body.\<close>

definition add_stats :: "string \<Rightarrow> (string \<times> json) list \<Rightarrow> families \<Rightarrow> py_error + families" where
  "add_stats h stats f =
     (let f1 = f\<lparr>vm_stats_up := vm_stats_up f @ [([h], IntVal 1)]\<rparr> in
      case parse_state (dict_get_default stats ''state'' (JStr ''0'')) of
        Inl e \<Rightarrow> Inl e
      | Inr state \<Rightarrow>
          (case add_bandwidth h stats (f1\<lparr>vm_state := vm_state f1 @ [([h], IntVal state)]\<rparr>) of
             Inl e \<Rightarrow> Inl e
           | Inr f2 \<Rightarrow>
               (case add_disk h stats f2 of
                  Inl e \<Rightarrow> Inl e
                | Inr f3 \<Rightarrow>
                    (case add_memory h stats f3 of
                       Inl e \<Rightarrow> Inl e
                     | Inr f4 \<Rightarrow> add_vswap h stats f4))))"

text \<open>The branch \<^verbatim>\<open>else:\<close> of the loop body.\<close>

definition add_unavailable :: "string \<Rightarrow> families \<Rightarrow> families" where
  "add_unavailable h f =
     f\<lparr>vm_stats_up := vm_stats_up f @ [([h], IntVal 0)],
       vm_state := vm_state f @ [([h], IntVal 0)]\<rparr>"

definition add_info :: "vm \<Rightarrow> families \<Rightarrow> families" where
  "add_info v f =
     f\<lparr>vm_info := vm_info f @ [([hostname v, ip_address v, os v, vm_type v], IntVal 1)]\<rparr>"

text \<open>The loop \<^verbatim>\<open>for vm in vms\<close>; an exception leaves the loop and the generator.\<close>

fun collect_loop :: "server \<Rightarrow> vm list \<Rightarrow> client \<Rightarrow> families \<Rightarrow> (py_error + families) \<times> client" where
  "collect_loop srv [] c f = (Inr f, c)"
| "collect_loop srv (v # vs) c f =
     (case get_vm_stats srv (vm_id v) c of
        (Some stats, c1) \<Rightarrow>
          if stats \<noteq> [] then
            (case add_stats (hostname v) stats (add_info v f) of
               Inl e \<Rightarrow> (Inl e, c1)
             | Inr f1 \<Rightarrow> collect_loop srv vs c1 f1)
          else
            collect_loop srv vs (add_log (WarnStatsUnavailable (hostname v)) c1)
              (add_unavailable (hostname v) (add_info v f))
      | (None, c1) \<Rightarrow>
          collect_loop srv vs (add_log (WarnStatsUnavailable (hostname v)) c1)
            (add_unavailable (hostname v) (add_info v f)))"

text \<open>
  collect: \<open>Inr None\<close> is the generator that yields nothing, \<open>Inr (Some f)\<close> the fifteen
  families it yields, \<open>Inl e\<close> the exception that it raises instead.
\<close>

definition collect :: "nat \<Rightarrow> server \<Rightarrow> client \<Rightarrow> ((py_error + families option) \<times> client) option" where
  "collect k srv c =
     (case get_vms k srv c of
        None \<Rightarrow> None
      | Some (vms, c1) \<Rightarrow>
          if vms = [] then Some (Inr None, add_log WarnNoVMs c1)
          else
            (case collect_loop srv vms c1 empty_families of
               (Inl e, c2) \<Rightarrow> Some (Inl e, c2)
             | (Inr f, c2) \<Rightarrow> Some (Inr (Some f), c2)))"

section \<open>Notions of the specification\<close>

text \<open>A number as the specification's \<^verbatim>\<open><number>\<close>: digits with at most one point
  and at least one digit.\<close>

definition is_number :: "string \<Rightarrow> bool" where
  "is_number n = (list_all is_num_char n \<and> count_list n (CHR ''.'') \<le> 1 \<and> list_ex is_digit n)"

text \<open>The decimal number that such a text writes.\<close>

definition number_value :: "string \<Rightarrow> real" where
  "number_value n = decimal_value (takeWhile is_digit n) (drop 1 (dropWhile is_digit n))"

text \<open>A link target that carries the VM id: \<^verbatim>\<open>?_v=\<close> followed by a character other
  than \<^verbatim>\<open>&\<close>.\<close>

definition carries_vm_id :: "string \<Rightarrow> bool" where
  "carries_vm_id h = (\<exists>pre v rest. h = pre @ ''?_v='' @ v # rest \<and> v \<noteq> CHR ''&'')"

text \<open>A well-formed row of the inventory: at least 6 cells, a link in the second cell,
  and a link target that carries the VM id.\<close>

definition well_formed_row :: "row \<Rightarrow> bool" where
  "well_formed_row cells =
     (6 \<le> length cells \<and>
      (case cell_a (cells ! 1) of
         None \<Rightarrow> False
       | Some link \<Rightarrow> (case href link of None \<Rightarrow> False | Some h \<Rightarrow> carries_vm_id h)))"

section \<open>A panel with three rows, used as an example\<close>

definition ex_client :: client where
  "ex_client = \<lparr>base_url = ''https://panel.example'', username = ''admin'',
                 password = ''secret'', logged_in = False, sent = [], log = []\<rparr>"

definition plain_cell :: "string \<Rightarrow> cell" where
  "plain_cell t = \<lparr>cell_str = ''<td>'' @ t @ ''</td>'', cell_text = t, cell_a = None\<rparr>"

definition link_cell :: "string \<Rightarrow> string \<Rightarrow> cell" where
  "link_cell target t =
     \<lparr>cell_str = ''<td><a href='' @ target @ ''>'' @ t @ ''</a></td>'', cell_text = t,
      cell_a = Some \<lparr>href = Some target, a_text = t\<rparr>\<rparr>"

definition row_web :: row where
  "row_web = [plain_cell ''<img src=images/kvm.png>'', link_cell ''control.php?_v=abc123'' '' web1 '',
              plain_cell ''192.0.2.10'', plain_cell ''Debian 12'', plain_cell ''2 GB'',
              plain_cell ''40 GB'']"

definition row_short :: row where
  "row_short = [plain_cell ''<img src=images/kvm.png>'', link_cell ''control.php?_v=zzz'' ''old'',
                plain_cell ''192.0.2.11'', plain_cell ''Debian 11'', plain_cell ''1 GB'']"

definition row_db :: row where
  "row_db = [plain_cell ''<img src=images/openvz.png>'',
             link_cell ''control.php?_v=xyz789&tab=1'' ''db1'',
             plain_cell ''192.0.2.12'', plain_cell ''Ubuntu 22.04'', plain_cell ''4 GB'',
             plain_cell ''80 GB'']"

definition vm_web :: vm where
  "vm_web = \<lparr>vm_id = ''abc123'', hostname = ''web1'', vm_type = ''kvm'',
              ip_address = ''192.0.2.10'', os = ''Debian 12'', memory = ''2 GB'',
              disk = ''40 GB''\<rparr>"

definition vm_db :: vm where
  "vm_db = \<lparr>vm_id = ''xyz789'', hostname = ''db1'', vm_type = ''openvz'',
             ip_address = ''192.0.2.12'', os = ''Ubuntu 22.04'', memory = ''4 GB'',
             disk = ''80 GB''\<rparr>"

text \<open>The landing page of a session that is logged in, and the page shown otherwise.\<close>

definition home_page :: response where
  "home_page = \<lparr>status_code = 200,
                 body_text = ''<a href=logout.php>Logout</a><table id=vmlist>'',
                 json_body = None, vmlist = Some (Some [row_web, row_short, row_db])\<rparr>"

definition login_page :: response where
  "login_page = \<lparr>status_code = 200, body_text = ''<form action=login.php>'',
                  json_body = None, vmlist = None\<rparr>"

definition json_response :: "json \<Rightarrow> response" where
  "json_response j = \<lparr>status_code = 200, body_text = [], json_body = Some j, vmlist = None\<rparr>"

definition login_ok :: json where
  "login_ok = JDict [(''success'', JBool True), (''status'', JStr ''1'')]"

definition stats_web :: json where
  "stats_web = JDict [(''success'', JStr ''1''), (''state'', JStr ''1''),
                      (''totalbw'', JStr ''100 GB''), (''usedbw'', JStr ''42 GB''),
                      (''percentbw'', JStr ''42'')]"

text \<open>A panel that accepts the login, shows the landing page, and answers the stats
  request for the VM \<^verbatim>\<open>abc123\<close> with the given JSON value; for every other VM the
  answer has no \<^verbatim>\<open>success\<close>.\<close>

definition panel_with :: "json \<Rightarrow> server" where
  "panel_with stats n rq =
     (case rq of
        Get url \<Rightarrow> Some home_page
      | Post url form \<Rightarrow>
          if url = ''https://panel.example/login.php'' then Some (json_response login_ok)
          else if map_of form ''vi'' = Some ''abc123'' then Some (json_response stats)
          else Some (json_response (JDict [(''error'', JStr ''no data'')])))"

definition ex_server :: server where
  "ex_server = panel_with stats_web"

text \<open>Stats with a state other than 0 and 1, and stats with a percentage that is no
  number.\<close>

definition stats_state2 :: json where
  "stats_state2 = JDict [(''success'', JStr ''1''), (''state'', JStr ''2'')]"

definition stats_bad_percent :: json where
  "stats_bad_percent = JDict [(''success'', JStr ''1''), (''state'', JStr ''1''),
                              (''totalbw'', JStr ''100 GB''), (''usedbw'', JStr ''42 GB''),
                              (''percentbw'', JStr ''n/a'')]"

section \<open>Properties of parse\_size\<close>

lemmas num_eval = parse_size_def size_match_def strip_def num_strip_def is_space_def
  is_num_space_def is_num_char_def is_digit_def upper_def upper_char_def float_of_str_def
  opt_sign_def number_part_def digitpart_def exponent_part_def scale10_def decimal_value_def
  nat_of_digits_def digit_val_def multipliers_get_def multipliers_def float_times_def
  float_of_int_def float_mul_def round64_def round64_pos_def float_exponent_def
  round_half_even_def pow2_def float_neg_def int_of_str_def int_max_str_digits_def
  bit_length.simps Let_def

lemma strip_core:
  assumes "list_all is_space lead" "list_all is_space trail" "body \<noteq> []"
    "\<not> is_space (hd body)" "\<not> is_space (last body)"
  shows "strip (lead @ body @ trail) = body"
proof -
  have a: "dropWhile is_space (lead @ body @ trail) = body @ trail"
    using assms(1,3,4) by (cases body) (auto simp: dropWhile_append list_all_iff)
  have b: "dropWhile is_space (rev trail @ rev body) = rev body"
    using assms(2,3,5) by (cases body rule: rev_cases) (auto simp: dropWhile_append list_all_iff)
  show ?thesis by (simp add: strip_def a b)
qed

lemma num_strip_id:
  assumes "s \<noteq> []" "\<not> is_num_space (hd s)" "\<not> is_num_space (last s)"
  shows "num_strip s = s"
proof -
  have a: "dropWhile is_num_space s = s" using assms(1,2) by (cases s) auto
  have b: "dropWhile is_num_space (rev s) = rev s"
    using assms(1,3) by (cases s rule: rev_cases) auto
  show ?thesis by (simp add: num_strip_def a b)
qed

lemma takeWhile_run:
  assumes "list_all P n" "r = [] \<or> \<not> P (hd r)"
  shows "takeWhile P (n @ r) = n" and "dropWhile P (n @ r) = r"
  using assms by (cases r; auto simp: list_all_iff takeWhile_append dropWhile_append)+

lemma digits_tail_run:
  assumes "list_all is_digit ds" "r = [] \<or> (\<not> is_digit (hd r) \<and> hd r \<noteq> CHR ''_'')"
  shows "digits_tail (ds @ r) = (ds, r)"
  using assms
proof (induction ds)
  case Nil
  then show ?case by (cases r rule: digits_tail.cases) auto
next
  case (Cons d ds)
  then show ?case by (cases "ds @ r") auto
qed

lemma digitpart_run:
  assumes "list_all is_digit ds" "ds \<noteq> []" "r = [] \<or> (\<not> is_digit (hd r) \<and> hd r \<noteq> CHR ''_'')"
  shows "digitpart (ds @ r) = Some (ds, r)"
  using assms digits_tail_run [OF assms(1,3)] by (cases ds) (auto simp: digitpart_def)


lemma is_number_shape:
  assumes "is_number n"
  obtains ip where "n = ip" "list_all is_digit ip" "ip \<noteq> []"
  | ip fp where "n = ip @ CHR ''.'' # fp" "list_all is_digit ip" "list_all is_digit fp"
      "ip \<noteq> [] \<or> fp \<noteq> []"
proof -
  define ip where "ip = takeWhile is_digit n"
  define rest where "rest = dropWhile is_digit n"
  have n: "n = ip @ rest" by (simp add: ip_def rest_def)
  have ipd: "list_all is_digit ip" by (simp add: ip_def list_all_iff) (meson set_takeWhileD)
  from assms have nc: "list_all is_num_char n" and cnt: "count_list n (CHR ''.'') \<le> 1"
    and ex: "list_ex is_digit n" by (auto simp: is_number_def)
  show ?thesis
  proof (cases rest)
    case Nil
    then have "n = ip" using n by simp
    moreover have "ip \<noteq> []" using ex \<open>n = ip\<close> by (auto simp: list_ex_iff)
    ultimately show ?thesis using that(1) ipd by blast
  next
    case (Cons c fp)
    have "\<not> is_digit c" using Cons unfolding rest_def
      by (metis hd_dropWhile list.sel(1) list.simps(3))
    moreover have "is_num_char c" using nc n Cons by (auto simp: list_all_iff)
    ultimately have c: "c = CHR ''.''" by (simp add: is_num_char_def)
    have "count_list fp (CHR ''.'') = 0" using cnt n Cons c by simp
    then have "CHR ''.'' \<notin> set fp" by (simp add: count_list_0_iff)
    moreover have "list_all is_num_char fp" using nc n Cons by (auto simp: list_all_iff)
    ultimately have fpd: "list_all is_digit fp" by (auto simp: list_all_iff is_num_char_def)
    have "ip \<noteq> [] \<or> fp \<noteq> []"
    proof (rule ccontr)
      assume "\<not> (ip \<noteq> [] \<or> fp \<noteq> [])"
      then have "n = ''.''" using n Cons c by simp
      then show False using ex by (simp add: is_digit_def)
    qed
    then show ?thesis using that(2) [of ip fp] n Cons c ipd fpd by simp
  qed
qed

lemma digit_not_space: "is_digit c \<Longrightarrow> \<not> is_num_space c \<and> \<not> is_space c"
  by (auto simp: is_digit_def is_num_space_def is_space_def)

lemma digit_not_sign:
  "is_digit c \<Longrightarrow> c \<noteq> CHR ''-'' \<and> c \<noteq> CHR ''+'' \<and> c \<noteq> CHR ''.'' \<and> c \<noteq> CHR ''_''"
  by (auto simp: is_digit_def)

lemma digit_upper: "is_digit c \<Longrightarrow> upper_char c = c"
  unfolding is_digit_def by (elim disjE | simp add: upper_char_def)+

lemma digit_props: "is_digit c \<Longrightarrow> \<not> is_num_space c \<and> \<not> is_space c \<and> c \<noteq> CHR ''-'' \<and> c \<noteq> CHR ''+''
    \<and> c \<noteq> CHR ''.'' \<and> c \<noteq> CHR ''_'' \<and> upper_char c = c"
  using digit_not_space digit_not_sign digit_upper by blast

lemma dot_props: "\<not> is_num_space (CHR ''.'') \<and> \<not> is_space (CHR ''.'') \<and> \<not> is_digit (CHR ''.'')
    \<and> upper_char (CHR ''.'') = CHR ''.''"
  by (simp add: is_digit_def is_num_space_def is_space_def upper_char_def)

lemma num_char_props:
  assumes "is_num_char c"
  shows "\<not> is_num_space c \<and> \<not> is_space c \<and> c \<noteq> CHR ''-'' \<and> c \<noteq> CHR ''+''
    \<and> c \<noteq> CHR ''_'' \<and> upper_char c = c"
proof (cases "is_digit c")
  case True
  then show ?thesis using digit_props by blast
next
  case False
  then have "c = CHR ''.''" using assms by (simp add: is_num_char_def)
  then show ?thesis using dot_props by simp
qed

lemma takeWhile_digits_dot:
  "list_all is_digit ip \<Longrightarrow> takeWhile is_digit (ip @ CHR ''.'' # fp) = ip
     \<and> dropWhile is_digit (ip @ CHR ''.'' # fp) = CHR ''.'' # fp"
  using takeWhile_run [of is_digit ip "CHR ''.'' # fp"] dot_props by simp

lemma takeWhile_digits_all:
  "list_all is_digit ip \<Longrightarrow> takeWhile is_digit ip = ip \<and> dropWhile is_digit ip = []"
  using takeWhile_run [of is_digit ip "[]"] by simp

lemma upper_num: "list_all is_num_char n \<Longrightarrow> upper n = n"
  by (induction n) (auto simp: upper_def num_char_props)

lemma float_of_str_number:
  assumes "is_number n"
  shows "float_of_str n = Some (round64 (number_value n))"
proof -
  from assms have nc: "list_all is_num_char n" and ne: "n \<noteq> []"
    by (auto simp: is_number_def)
  have hdn: "is_num_char (hd n)" and lastn: "is_num_char (last n)"
    using nc ne by (auto simp: list_all_iff)
  have ns: "num_strip n = n"
    using num_strip_id [OF ne] hdn lastn num_char_props by blast
  have sg: "opt_sign n = (False, n)"
    using ne hdn num_char_props by (cases n) (auto simp: opt_sign_def)
  have up: "upper n = n" using nc by (rule upper_num)
  have notkw: "n \<noteq> ''INF''" "n \<noteq> ''INFINITY''" "n \<noteq> ''NAN''"
    using hdn by (auto simp: is_num_char_def is_digit_def)
  have np: "number_part n = Some (takeWhile is_digit n, drop 1 (dropWhile is_digit n), [])"
    using assms
  proof (cases rule: is_number_shape)
    case (1 ip)
    then have "digitpart n = Some (ip, [])" using digitpart_run [of ip "[]"] by simp
    then show ?thesis using 1 by (simp add: number_part_def takeWhile_digits_all)
  next
    case (2 ip fp)
    have dfp: "fp \<noteq> [] \<Longrightarrow> digitpart fp = Some (fp, [])"
      using digitpart_run [of fp "[]"] 2 by simp
    have dfp0: "fp = [] \<Longrightarrow> digitpart fp = None" by (simp add: digitpart_def)
    show ?thesis
    proof (cases "ip = []")
      case True
      then have fpne: "fp \<noteq> []" using 2 by simp
      have "digitpart n = None" using 2 True dot_props by (simp add: digitpart_def)
      then show ?thesis using 2 True dfp [OF fpne] dot_props
        by (simp add: number_part_def)
    next
      case False
      have "digitpart n = Some (ip, CHR ''.'' # fp)"
        using digitpart_run [of ip "CHR ''.'' # fp"] 2 False dot_props by simp
      then show ?thesis using 2 dfp dfp0 takeWhile_digits_dot [of ip fp]
        by (cases "fp = []") (simp_all add: number_part_def)
    qed
  qed
  show ?thesis
    using ns sg up notkw np
    by (simp add: float_of_str_def exponent_part_def scale10_def number_value_def)
qed


lemma space_upper: "is_space c \<Longrightarrow> upper_char c = c"
  unfolding is_space_def by (elim disjE | simp add: upper_char_def)+

lemma unit_shape:
  assumes "upper u \<in> set [''GB'', ''MB'', ''TB'', ''KB'']"
  shows "length u = 2" "u \<noteq> []" "\<not> is_space (hd u)" "\<not> is_num_char (hd u)" "\<not> is_space (last u)"
proof -
  from assms have len: "length (upper u) = 2" by auto
  then show l2: "length u = 2" by (simp add: upper_def)
  then obtain a b where u: "u = [a, b]"
    by (metis (no_types, opaque_lifting) One_nat_def Suc_1 length_0_conv length_Suc_conv)
  show "u \<noteq> []" using u by simp
  from assms u have a: "upper_char a \<in> {CHR ''G'', CHR ''M'', CHR ''T'', CHR ''K''}"
    and b: "upper_char b = CHR ''B''" by (auto simp: upper_def)
  have "\<not> is_space a"
  proof
    assume sp: "is_space a"
    then have "upper_char a = a" by (rule space_upper)
    then have "a \<in> {CHR ''G'', CHR ''M'', CHR ''T'', CHR ''K''}" using a by simp
    then show False using sp by (auto simp: is_space_def)
  qed
  then show "\<not> is_space (hd u)" using u by simp
  have "\<not> is_num_char a"
  proof
    assume nc: "is_num_char a"
    then have "upper_char a = a" using num_char_props by blast
    then have "a \<in> {CHR ''G'', CHR ''M'', CHR ''T'', CHR ''K''}" using a by simp
    then show False using nc by (auto simp: is_num_char_def is_digit_def)
  qed
  then show "\<not> is_num_char (hd u)" using u by simp
  have "\<not> is_space b"
  proof
    assume sp: "is_space b"
    then have "upper_char b = b" by (rule space_upper)
    then have "b = CHR ''B''" using b by simp
    then show False using sp by (simp add: is_space_def)
  qed
  then show "\<not> is_space (last u)" using u by simp
qed

lemma hd_not_null:
  assumes "list_all is_space lead" "n \<noteq> []" "is_num_char (hd n)"
  shows "lead @ n @ rest \<noteq> ''null''"
proof
  assume eq: "lead @ n @ rest = ''null''"
  have "hd (lead @ n @ rest) = CHR ''n''" by (simp add: eq)
  moreover have "is_space (hd (lead @ n @ rest)) \<or> is_num_char (hd (lead @ n @ rest))"
    using assms by (cases lead) (auto simp: list_all_iff)
  ultimately show False by (auto simp: is_space_def is_num_char_def is_digit_def)
qed

lemma parse_size_with_unit:
  assumes lead: "list_all is_space lead" and ws: "list_all is_space ws"
    and trail: "list_all is_space trail" and n: "is_number n"
    and u: "upper u \<in> set [''GB'', ''MB'', ''TB'', ''KB'']"
  shows "parse_size (JStr (lead @ n @ ws @ u @ trail)) =
           float_times (round64 (number_value n)) (multipliers_get (upper u))"
proof -
  from n have nc: "list_all is_num_char n" and ne: "n \<noteq> []" by (auto simp: is_number_def)
  have hdn: "is_num_char (hd n)" using nc ne by (auto simp: list_all_iff)
  note us = unit_shape [OF u]
  have nn: "lead @ n @ ws @ u @ trail \<noteq> ''null''" by (rule hd_not_null [OF lead ne hdn])
  have body: "strip (lead @ (n @ ws @ u) @ trail) = n @ ws @ u"
    using strip_core [OF lead trail, of "n @ ws @ u"] ne hdn us num_char_props by simp
  have hd_rest: "\<not> is_num_char (hd (ws @ u))"
    using ws us num_char_props by (cases ws) (auto simp: list_all_iff)
  have g1: "takeWhile is_num_char (n @ ws @ u) = n" "dropWhile is_num_char (n @ ws @ u) = ws @ u"
    using takeWhile_run [OF nc, of "ws @ u"] hd_rest us by auto
  have g2: "dropWhile is_space (ws @ u) = u"
    using takeWhile_run(2) [OF ws, of u] us by simp
  have m: "size_match (n @ ws @ u) = Some (n, Some u)"
    using g1 g2 ne us(1) u by (simp add: size_match_def Let_def)
  show ?thesis
    using body nn ne m float_of_str_number [OF n]
    by (simp add: parse_size_def Let_def)
qed

lemma parse_size_no_unit:
  assumes lead: "list_all is_space lead" and trail: "list_all is_space trail" and n: "is_number n"
  shows "parse_size (JStr (lead @ n @ trail)) = float_times (round64 (number_value n)) (1024 ^ 3)"
proof -
  from n have nc: "list_all is_num_char n" and ne: "n \<noteq> []" by (auto simp: is_number_def)
  have hdn: "is_num_char (hd n)" and lastn: "is_num_char (last n)"
    using nc ne by (auto simp: list_all_iff)
  have nn: "lead @ n @ trail \<noteq> ''null''" by (rule hd_not_null [OF lead ne hdn])
  have body: "strip (lead @ n @ trail) = n"
    using strip_core [OF lead trail, of n] ne hdn lastn num_char_props by simp
  have g1: "takeWhile is_num_char n = n" "dropWhile is_num_char n = []"
    using takeWhile_run [OF nc, of "[]"] by auto
  have m: "size_match n = Some (n, None)"
    unfolding size_match_def Let_def g1 using ne by (simp add: upper_def)
  show ?thesis
    using body nn ne m float_of_str_number [OF n]
    by (simp add: parse_size_def Let_def upper_def upper_char_def multipliers_get_def multipliers_def)
qed

lemmas round_eval = float_of_int_def round64_def round64_pos_def float_exponent_def
  round_half_even_def pow2_def float_neg_def bit_length.simps Let_def

lemma float_of_int_multipliers:
  "float_of_int 1024 = Inr (Finite 1024)"
  "float_of_int (1024 ^ 2) = Inr (Finite (1024 ^ 2))"
  "float_of_int (1024 ^ 3) = Inr (Finite (1024 ^ 3))"
  "float_of_int (1024 ^ 4) = Inr (Finite (1024 ^ 4))"
  by (simp_all add: round_eval)

lemma multipliers_get_units:
  "multipliers_get ''KB'' = 1024" "multipliers_get ''MB'' = 1024 ^ 2"
  "multipliers_get ''GB'' = 1024 ^ 3" "multipliers_get ''TB'' = 1024 ^ 4"
  by (simp_all add: multipliers_get_def multipliers_def)

lemma float_of_int_multipliers_num:
  "float_of_int 1048576 = Inr (Finite 1048576)"
  "float_of_int 1073741824 = Inr (Finite 1073741824)"
  "float_of_int 1099511627776 = Inr (Finite 1099511627776)"
  by (simp_all add: round_eval)

text \<open>
  C8. The reference equations of parse\_size: \<^verbatim>\<open>"20.31 GB"\<close> is the float product
  \<^verbatim>\<open>20.31 * 1024**3\<close>, the empty string and \<^verbatim>\<open>"null"\<close> are 0.0, \<^verbatim>\<open>"5"\<close> is
  \<^verbatim>\<open>5 * 1024**3\<close>. In general, for every number n, with any whitespace before it, after
  it and between it and the unit: without a unit the result is the float of n times
  1024^3, and with a unit spelled in any mix of upper and lower case it is the float of n
  times 1024 for KB, 1024^2 for MB, 1024^3 for GB and 1024^4 for TB.
\<close>

theorem parse_size_reference:
  "parse_size (JStr ''20.31 GB'') = Inr (float_mul (round64 20.31) (Finite (1024 ^ 3)))
   \<and> float_mul (round64 20.31) (Finite (1024 ^ 3)) = Finite (5716756776993423 / 262144)
   \<and> parse_size (JStr '''') = Inr (Finite 0)
   \<and> parse_size (JStr ''null'') = Inr (Finite 0)
   \<and> parse_size (JStr ''5'') = Inr (float_mul (round64 5) (Finite (1024 ^ 3)))
   \<and> float_mul (round64 5) (Finite (1024 ^ 3)) = Finite (5 * 1024 ^ 3)
   \<and> (\<forall>lead n ws u trail.
         list_all is_space lead \<and> list_all is_space ws \<and> list_all is_space trail \<and> is_number n \<longrightarrow>
           parse_size (JStr (lead @ n @ trail))
             = Inr (float_mul (round64 (number_value n)) (Finite (1024 ^ 3)))
         \<and> (upper u = ''KB'' \<longrightarrow> parse_size (JStr (lead @ n @ ws @ u @ trail))
               = Inr (float_mul (round64 (number_value n)) (Finite 1024)))
         \<and> (upper u = ''MB'' \<longrightarrow> parse_size (JStr (lead @ n @ ws @ u @ trail))
               = Inr (float_mul (round64 (number_value n)) (Finite (1024 ^ 2))))
         \<and> (upper u = ''GB'' \<longrightarrow> parse_size (JStr (lead @ n @ ws @ u @ trail))
               = Inr (float_mul (round64 (number_value n)) (Finite (1024 ^ 3))))
         \<and> (upper u = ''TB'' \<longrightarrow> parse_size (JStr (lead @ n @ ws @ u @ trail))
               = Inr (float_mul (round64 (number_value n)) (Finite (1024 ^ 4)))))"
proof -
  have e1: "parse_size (JStr ''20.31 GB'') = Inr (float_mul (round64 20.31) (Finite (1024 ^ 3)))"
    using parse_size_with_unit [of "[]" "'' ''" "[]" "''20.31''" "''GB''"]
    by (simp add: is_number_def is_num_char_def is_digit_def is_space_def number_value_def
        decimal_value_def nat_of_digits_def digit_val_def upper_def upper_char_def
        multipliers_get_units float_times_def float_of_int_multipliers
        float_of_int_multipliers_num)
  have e2: "float_mul (round64 20.31) (Finite (1024 ^ 3)) = Finite (5716756776993423 / 262144)"
    by (simp add: float_mul_def round_eval)
  have e3: "parse_size (JStr '''') = Inr (Finite 0)" by (simp add: parse_size_def)
  have e4: "parse_size (JStr ''null'') = Inr (Finite 0)" by (simp add: parse_size_def)
  have e5: "parse_size (JStr ''5'') = Inr (float_mul (round64 5) (Finite (1024 ^ 3)))"
    using parse_size_no_unit [of "[]" "[]" "''5''"]
    by (simp add: is_number_def is_num_char_def is_digit_def number_value_def
        decimal_value_def nat_of_digits_def digit_val_def
        float_times_def float_of_int_multipliers
        float_of_int_multipliers_num)
  have e6: "float_mul (round64 5) (Finite (1024 ^ 3)) = Finite (5 * 1024 ^ 3)"
    by (simp add: float_mul_def round_eval)
  have gen: "parse_size (JStr (lead @ n @ trail))
             = Inr (float_mul (round64 (number_value n)) (Finite (1024 ^ 3)))
         \<and> (upper u = ''KB'' \<longrightarrow> parse_size (JStr (lead @ n @ ws @ u @ trail))
               = Inr (float_mul (round64 (number_value n)) (Finite 1024)))
         \<and> (upper u = ''MB'' \<longrightarrow> parse_size (JStr (lead @ n @ ws @ u @ trail))
               = Inr (float_mul (round64 (number_value n)) (Finite (1024 ^ 2))))
         \<and> (upper u = ''GB'' \<longrightarrow> parse_size (JStr (lead @ n @ ws @ u @ trail))
               = Inr (float_mul (round64 (number_value n)) (Finite (1024 ^ 3))))
         \<and> (upper u = ''TB'' \<longrightarrow> parse_size (JStr (lead @ n @ ws @ u @ trail))
               = Inr (float_mul (round64 (number_value n)) (Finite (1024 ^ 4))))"
    if h: "list_all is_space lead" "list_all is_space ws" "list_all is_space trail" "is_number n"
    for lead n ws u trail
  proof -
    have d: "parse_size (JStr (lead @ n @ trail))
             = Inr (float_mul (round64 (number_value n)) (Finite (1024 ^ 3)))"
      using parse_size_no_unit [OF h(1) h(3) h(4)]
      by (simp add: float_times_def float_of_int_multipliers
        float_of_int_multipliers_num)
    have w: "parse_size (JStr (lead @ n @ ws @ u @ trail)) =
           float_times (round64 (number_value n)) (multipliers_get U)"
      if "upper u = U" "U \<in> set [''GB'', ''MB'', ''TB'', ''KB'']" for U
      using parse_size_with_unit [OF h(1) h(2) h(3) h(4), of u] that by simp
    show ?thesis
      using d w [of "''KB''"] w [of "''MB''"] w [of "''GB''"] w [of "''TB''"]
      by (simp add: multipliers_get_units float_times_def float_of_int_multipliers
        float_of_int_multipliers_num)
  qed
  show ?thesis using e1 e2 e3 e4 e5 e6 gen by blast
qed

theorem parse_size_reference_witness:
  "list_all is_space '' '' \<and> list_all is_space ''  '' \<and> is_number ''100.5''
   \<and> upper ''mB'' = ''MB''
   \<and> parse_size (JStr ('' '' @ ''100.5'' @ ''  '' @ ''mB'' @ '' ''))
       = Inr (float_mul (round64 (number_value ''100.5'')) (Finite (1024 ^ 2)))
   \<and> float_mul (round64 (number_value ''100.5'')) (Finite (1024 ^ 2)) = Finite (100.5 * 1024 ^ 2)"
proof -
  have a: "list_all is_space '' ''" "list_all is_space ''  ''" "is_number ''100.5''"
    by (simp_all add: is_space_def is_number_def is_num_char_def is_digit_def)
  have b: "upper ''mB'' = ''MB''" by (simp add: upper_def upper_char_def)
  have c: "parse_size (JStr ('' '' @ ''100.5'' @ ''  '' @ ''mB'' @ '' ''))
       = Inr (float_mul (round64 (number_value ''100.5'')) (Finite (1024 ^ 2)))"
    using parse_size_reference a b by blast
  have d: "float_mul (round64 (number_value ''100.5'')) (Finite (1024 ^ 2)) = Finite (100.5 * 1024 ^ 2)"
    by (simp add: number_value_def decimal_value_def nat_of_digits_def digit_val_def is_digit_def
        float_mul_def round_eval)
  show ?thesis using a b c d by blast
qed

section \<open>Properties of the inventory listing\<close>

lemma takeWhile_nonempty: "(takeWhile P xs \<noteq> []) = (\<exists>y ys. xs = y # ys \<and> P y)"
  by (cases xs) auto

lemma is_prefix_split: "is_prefix p s \<Longrightarrow> s = p @ drop (length p) s"
  by (metis append_take_drop_id is_prefix_def)

lemma vm_id_search_here:
  "vm_id_search (''?_v='' @ v # rest) \<noteq> None" if "v \<noteq> CHR ''&''"
  using that by (simp add: is_prefix_def)

lemma vm_id_search_append:
  "vm_id_search s \<noteq> None \<Longrightarrow> vm_id_search (pre @ s) \<noteq> None"
  by (induction pre) (auto simp: Let_def)

lemma vm_id_search_sound:
  "vm_id_search h \<noteq> None \<Longrightarrow> carries_vm_id h"
proof (induction h)
  case Nil
  then show ?case by simp
next
  case (Cons c cs)
  show ?case
  proof (cases "is_prefix ''?_v='' (c # cs) \<and> takeWhile (\<lambda>x. x \<noteq> CHR ''&'') (drop 4 (c # cs)) \<noteq> []")
    case True
    then obtain y ys where d: "drop 4 (c # cs) = y # ys" and y: "y \<noteq> CHR ''&''"
      by (auto simp: takeWhile_nonempty)
    from True have "c # cs = ''?_v='' @ drop (length ''?_v='') (c # cs)"
      by (intro is_prefix_split) blast
    moreover have "length ''?_v='' = 4" by simp
    ultimately have "c # cs = ''?_v='' @ y # ys" using d by metis
    then have "c # cs = [] @ ''?_v='' @ y # ys" by simp
    then show ?thesis unfolding carries_vm_id_def using y by blast
  next
    case False
    then have "vm_id_search cs \<noteq> None" using Cons.prems by (auto simp: Let_def split: if_splits)
    then obtain pre v rest where "cs = pre @ ''?_v='' @ v # rest" "v \<noteq> CHR ''&''"
      using Cons.IH unfolding carries_vm_id_def by blast
    then have "c # cs = (c # pre) @ ''?_v='' @ v # rest" by simp
    then show ?thesis unfolding carries_vm_id_def using \<open>v \<noteq> CHR ''&''\<close> by blast
  qed
qed

lemma vm_id_search_iff: "(vm_id_search h \<noteq> None) = carries_vm_id h"
proof
  assume "vm_id_search h \<noteq> None" then show "carries_vm_id h" by (rule vm_id_search_sound)
next
  assume "carries_vm_id h"
  then obtain pre v rest where "h = pre @ ''?_v='' @ v # rest" "v \<noteq> CHR ''&''"
    unfolding carries_vm_id_def by blast
  then show "vm_id_search h \<noteq> None"
    using vm_id_search_append [OF vm_id_search_here] by blast
qed

lemma parse_row_iff: "(parse_row r \<noteq> None) = well_formed_row r"
  by (auto simp: parse_row_def well_formed_row_def vm_id_search_iff [symmetric]
      split: option.splits)

lemma rows_loop_acc: "rows_loop rows acc = acc @ map (the \<circ> parse_row) (filter well_formed_row rows)"
  by (induction rows arbitrary: acc) (auto simp: parse_row_iff [symmetric] split: option.splits)


lemma rows_loop_append: "rows_loop rows acc = acc @ List.map_filter parse_row rows"
  by (induction rows arbitrary: acc) (auto simp: map_filter_simps split: option.splits)

lemma rows_loop_map_filter: "rows_loop rows [] = List.map_filter parse_row rows"
  by (simp add: rows_loop_append)

lemma get_vms_Suc_table:
  assumes "ensure_logged_in srv c = (True, c1)"
    and "send srv (home_request c1) c1 = (Some r, c2)"
    and "\<not> raises_for_status r"
    and "contains ''logout.php'' (body_text r)"
    and "vmlist r = Some (Some rows)"
  shows "get_vms (Suc k) srv c =
    Some (rows_loop rows [], add_log (InfoFoundVMs (length (rows_loop rows []))) c2)"
  using assms by (simp add: Let_def)


lemmas client_eval = ensure_logged_in_def is_logged_in_def login_def send_def home_request_def
  login_request_def stats_request_def raises_for_status_def add_log_def dict_get_def
  dict_get_default_def get_vm_stats_def is_prefix_def Let_def

lemmas ex_eval = ex_client_def ex_server_def panel_with_def home_page_def login_page_def json_response_def
  login_ok_def stats_web_def row_web_def row_short_def row_db_def plain_cell_def link_cell_def
  vm_web_def vm_db_def

lemma parse_row_fields:
  assumes "parse_row cells = Some v"
  shows "\<exists>link h. cell_a (cells ! 1) = Some link \<and> href link = Some h
           \<and> vm_id_search h = Some (vm_id v)
           \<and> hostname v = strip (a_text link)
           \<and> vm_type v = (if contains ''kvm.png'' (cell_str (cells ! 0)) then ''kvm'' else ''openvz'')
           \<and> ip_address v = strip (cell_text (cells ! 2))
           \<and> os v = strip (cell_text (cells ! 3))
           \<and> memory v = strip (cell_text (cells ! 4))
           \<and> disk v = strip (cell_text (cells ! 5))"
  using assms by (auto simp: parse_row_def split: if_splits option.splits)

lemma ex_logged_in:
  "ensure_logged_in ex_server ex_client =
     (True, ex_client\<lparr>logged_in := True,
        sent := [login_request ex_client, home_request ex_client],
        log := [InfoSessionExpired, InfoLoggedIn, InfoLoginVerified]\<rparr>)"
  by (simp add: client_eval ex_eval)

lemma ex_rows:
  "parse_row row_web = Some vm_web" "parse_row row_short = None" "parse_row row_db = Some vm_db"
  by (simp_all add: parse_row_def ex_eval is_prefix_def strip_def is_space_def)

text \<open>
  C9. When get\_vms reaches the inventory table (the client is logged in, the landing page
  is fetched without an HTTP error, carries the marker and has the table with its body),
  it returns one VM for each well-formed row, in the order of the rows, and nothing for
  the others: a row is skipped exactly if it has fewer than 6 cells, or no link in its
  second cell, or a link target that does not carry the VM id. The VM of a row is made
  of the id found in the link target and the stripped texts of the link and of the cells
  3 to 6.
\<close>

theorem get_vms_rows:
  assumes "ensure_logged_in srv c = (True, c1)"
    and "send srv (home_request c1) c1 = (Some r, c2)"
    and "\<not> raises_for_status r"
    and "contains ''logout.php'' (body_text r)"
    and "vmlist r = Some (Some rows)"
  shows "(\<exists>c'. get_vms (Suc k) srv c = Some (List.map_filter parse_row rows, c'))
    \<and> List.map_filter parse_row rows = map (the \<circ> parse_row) (filter well_formed_row rows)
    \<and> (\<forall>cells. (parse_row cells = None) = (\<not> well_formed_row cells))
    \<and> (\<forall>cells. well_formed_row cells =
          (6 \<le> length cells \<and> (\<exists>link h. cell_a (cells ! 1) = Some link \<and> href link = Some h
              \<and> carries_vm_id h)))
    \<and> (\<forall>cells v. parse_row cells = Some v \<longrightarrow>
          (\<exists>link h. cell_a (cells ! 1) = Some link \<and> href link = Some h
             \<and> vm_id_search h = Some (vm_id v)
             \<and> hostname v = strip (a_text link)
             \<and> ip_address v = strip (cell_text (cells ! 2))
             \<and> os v = strip (cell_text (cells ! 3))
             \<and> memory v = strip (cell_text (cells ! 4))
             \<and> disk v = strip (cell_text (cells ! 5))))"
proof -
  have a: "\<exists>c'. get_vms (Suc k) srv c = Some (List.map_filter parse_row rows, c')"
    using get_vms_Suc_table [OF assms] by (simp add: rows_loop_map_filter)
  have b: "List.map_filter parse_row rows = map (the \<circ> parse_row) (filter well_formed_row rows)"
    using rows_loop_acc [of rows "[]"] by (simp add: rows_loop_map_filter)
  have c: "(parse_row cells = None) = (\<not> well_formed_row cells)" for cells
    using parse_row_iff [of cells] by blast
  have d: "well_formed_row cells =
          (6 \<le> length cells \<and> (\<exists>link h. cell_a (cells ! 1) = Some link \<and> href link = Some h
              \<and> carries_vm_id h))" for cells
    by (auto simp: well_formed_row_def split: option.splits)
  have e: "\<exists>link h. cell_a (cells ! 1) = Some link \<and> href link = Some h
             \<and> vm_id_search h = Some (vm_id v)
             \<and> hostname v = strip (a_text link)
             \<and> ip_address v = strip (cell_text (cells ! 2))
             \<and> os v = strip (cell_text (cells ! 3))
             \<and> memory v = strip (cell_text (cells ! 4))
             \<and> disk v = strip (cell_text (cells ! 5))" if "parse_row cells = Some v" for cells v
    using parse_row_fields [OF that] by blast
  show ?thesis using a b c d e by blast
qed

theorem get_vms_rows_witness:
  "(\<exists>c'. get_vms (Suc 0) ex_server ex_client = Some ([vm_web, vm_db], c'))
   \<and> well_formed_row row_web \<and> \<not> well_formed_row row_short \<and> well_formed_row row_db"
proof -
  define c1 where "c1 = ex_client\<lparr>logged_in := True,
        sent := [login_request ex_client, home_request ex_client],
        log := [InfoSessionExpired, InfoLoggedIn, InfoLoginVerified]\<rparr>"
  have h1: "ensure_logged_in ex_server ex_client = (True, c1)"
    unfolding c1_def by (rule ex_logged_in)
  have h2: "send ex_server (home_request c1) c1
      = (Some home_page, c1\<lparr>sent := sent c1 @ [home_request c1]\<rparr>)"
    by (simp add: send_def home_request_def ex_server_def panel_with_def)
  have h3: "\<not> raises_for_status home_page"
    by (simp add: raises_for_status_def home_page_def)
  have h4: "contains ''logout.php'' (body_text home_page)"
    by (simp add: home_page_def is_prefix_def)
  have h5: "vmlist home_page = Some (Some [row_web, row_short, row_db])"
    by (simp add: home_page_def)
  note t = get_vms_rows [OF h1 h2 h3 h4 h5, of 0]
  have m: "List.map_filter parse_row [row_web, row_short, row_db] = [vm_web, vm_db]"
    by (simp add: map_filter_simps ex_rows)
  note iff = t [THEN conjunct2, THEN conjunct2, THEN conjunct1]
  have w1: "well_formed_row row_web" using iff [rule_format, of row_web] ex_rows(1) by simp
  have w2: "\<not> well_formed_row row_short" using iff [rule_format, of row_short] ex_rows(2) by simp
  have w3: "well_formed_row row_db" using iff [rule_format, of row_db] ex_rows(3) by simp
  from t [THEN conjunct1] m
  have "\<exists>c'. get_vms (Suc 0) ex_server ex_client = Some ([vm_web, vm_db], c')" by simp
  then show ?thesis using w1 w2 w3 by blast
qed




section \<open>Totality of parse\_size\<close>







section \<open>Properties of collect\<close>

lemmas collect_eval = collect_def add_stats_def add_bandwidth_def add_disk_def add_memory_def
  add_vswap_def usage_triple_def parse_state_def add_unavailable_def add_info_def
  empty_families_def

lemma ex_get_vms:
  "get_vms (Suc 0) (panel_with st) ex_client =
   Some ([vm_web, vm_db], ex_client\<lparr>logged_in := True,
        sent := [login_request ex_client, home_request ex_client, home_request ex_client],
        log := [InfoSessionExpired, InfoLoggedIn, InfoLoginVerified, InfoFoundVMs 2]\<rparr>)"
  by (simp add: client_eval ex_eval parse_row_def strip_def is_space_def)

text \<open>
  C5. The state that collect emits is the integer read from the \<^verbatim>\<open>state\<close> field, not
  only 0 or 1: with \<^verbatim>\<open>"state": "2"\<close> in the stats of the VM web1, the sample of
  \<^verbatim>\<open>racknerd_vm_state\<close> for web1 has the value 2. (The VM db1 has no stats: its state
  is 0.)
\<close>

theorem state_third_value:
  "parse_state (JStr ''2'') = Inr 2
   \<and> (\<exists>c'. collect (Suc 0) (panel_with stats_state2) ex_client =
        Some (Inr (Some (empty_families
           \<lparr>vm_info := [([''web1'', ''192.0.2.10'', ''Debian 12'', ''kvm''], IntVal 1),
                        ([''db1'', ''192.0.2.12'', ''Ubuntu 22.04'', ''openvz''], IntVal 1)],
            vm_state := [([''web1''], IntVal 2), ([''db1''], IntVal 0)],
            vm_stats_up := [([''web1''], IntVal 1), ([''db1''], IntVal 0)]\<rparr>)), c'))"
proof -
  have a: "parse_state (JStr ''2'') = Inr 2"
    by (simp add: parse_state_def num_eval)
  have b: "\<exists>c'. collect (Suc 0) (panel_with stats_state2) ex_client =
        Some (Inr (Some (empty_families
           \<lparr>vm_info := [([''web1'', ''192.0.2.10'', ''Debian 12'', ''kvm''], IntVal 1),
                        ([''db1'', ''192.0.2.12'', ''Ubuntu 22.04'', ''openvz''], IntVal 1)],
            vm_state := [([''web1''], IntVal 2), ([''db1''], IntVal 0)],
            vm_stats_up := [([''web1''], IntVal 1), ([''db1''], IntVal 0)]\<rparr>)), c')"
    by (simp only: collect_def ex_get_vms)
       (simp add: client_eval ex_eval collect_eval stats_state2_def num_eval)
  show ?thesis using a b by blast
qed

theorem state_third_value_witness:
  "parse_state (JStr ''2'') = Inr 2"
  by (rule state_third_value [THEN conjunct1])

text \<open>
  C6. A percentage that does not parse as a float is not turned into 0.0: with
  \<^verbatim>\<open>"percentbw": "n/a"\<close> in the stats of the VM web1, \<^verbatim>\<open>float\<close> raises ValueError,
  collect raises it too and yields no metric at all, also none for the VM db1.
\<close>

theorem bad_percent_aborts:
  "py_float (JStr ''n/a'') = Inl ValueError
   \<and> (\<exists>c'. collect (Suc 0) (panel_with stats_bad_percent) ex_client = Some (Inl ValueError, c'))"
proof -
  have a: "py_float (JStr ''n/a'') = Inl ValueError"
    by (simp add: num_eval)
  have b: "\<exists>c'. collect (Suc 0) (panel_with stats_bad_percent) ex_client = Some (Inl ValueError, c')"
    by (simp only: collect_def ex_get_vms)
       (simp add: client_eval ex_eval collect_eval stats_bad_percent_def num_eval)
  show ?thesis using a b by blast
qed

theorem bad_percent_aborts_witness:
  "py_float (JStr ''n/a'') = Inl ValueError"
  by (rule bad_percent_aborts [THEN conjunct1])


end
